theory Spec2Isabelle
  imports Main "HOL-Library.Char_ord" "HOL-Library.List_Lexorder" "HOL-Library.Product_Lexorder"
begin

section \<open>Strings\<close>

text \<open>
  Python strings are modelled as HOL strings (lists of 8-bit characters read as code
  points). The only non-ASCII character the program uses, the accented a of the raw
  material variant of \<open>Cerda pinceleta\<close>, is the code point 0xE1.
\<close>

definition estandar :: string where
  "estandar = ''est'' @ [CHR 0xE1] @ ''ndar''"

text \<open>\<open>str.strip()\<close>: the characters Python calls whitespace, below code point 256.\<close>

definition is_space :: "char \<Rightarrow> bool" where
  "is_space c =
     (c = CHR 0x20 \<or> c = CHR 0x09 \<or> c = CHR 0x0A \<or> c = CHR 0x0B \<or> c = CHR 0x0C \<or>
      c = CHR 0x0D \<or> c = CHR 0x1C \<or> c = CHR 0x1D \<or> c = CHR 0x1E \<or> c = CHR 0x1F \<or>
      c = CHR 0x85 \<or> c = CHR 0xA0)"

definition strip :: "string \<Rightarrow> string" where
  "strip s = rev (dropWhile is_space (rev (dropWhile is_space s)))"

text \<open>
  \<open>s.split(" - ")\<close>: the pieces of \<open>s\<close> between the occurrences of the separator,
  found from the left and not overlapping. The result is never empty.
\<close>

fun split_sep :: "string \<Rightarrow> string list" where
  "split_sep [] = [[]]"
| "split_sep (c # cs) =
     (if take 3 (c # cs) = '' - '' then [] # split_sep (drop 2 cs)
      else (case split_sep cs of [] \<Rightarrow> [[c]] | w # ws \<Rightarrow> (c # w) # ws))"

text \<open>Whether the separator occurs in a string.\<close>

fun has_sep :: "string \<Rightarrow> bool" where
  "has_sep [] = False"
| "has_sep (c # cs) = (take 3 (c # cs) = '' - '' \<or> has_sep cs)"

section \<open>Recipe resolver\<close>

text \<open>
  \<open>compute_mp_needs\<close> (source lines 881 to 899). A consumption line is a triple of
  raw material type, variant and quantity. For \<open>pinceleta\<close> the unpacking of the split
  into two names raises ValueError unless there are exactly two pieces; the source
  catches it and continues with two empty names.
\<close>

type_synonym item = "string \<times> string \<times> int"

definition compute_mp_needs :: "string \<Rightarrow> string \<Rightarrow> int \<Rightarrow> item list" where
  "compute_mp_needs tipo_prod variante_producto cantidad =
     (if tipo_prod = ''pincel normal'' \<and> variante_producto \<noteq> [] then
        (let medida_sel = hd (split_sep variante_producto);
             mango_var = variante_producto;
             chapita_var = medida_sel
         in [(''Mango'', mango_var, cantidad), (''Chapita'', chapita_var, cantidad)])
      else if tipo_prod = ''pinceleta'' \<and> variante_producto \<noteq> [] then
        (let (color_sel, chapita_sel) =
               (case split_sep variante_producto of
                  [a, b] \<Rightarrow> (a, b)
                | _ \<Rightarrow> ([], []))
         in if color_sel \<noteq> [] \<and> chapita_sel \<noteq> [] then
              [(''Manguito pinceleta'', color_sel, cantidad),
               (''Chapita pinceleta'', chapita_sel, cantidad),
               (''Cerda pinceleta'', estandar, cantidad)]
            else [])
      else [])"

text \<open>\<open>str(n)\<close> for an integer, used by the f-strings that name an order.\<close>

fun digits :: "nat \<Rightarrow> string" where
  "digits n = (if n < 10 then [char_of (48 + n)] else digits (n div 10) @ [char_of (48 + n mod 10)])"

definition str_int :: "int \<Rightarrow> string" where
  "str_int i = (if i < 0 then CHR ''-'' # digits (nat (- i)) else digits (nat i))"

section \<open>Tables\<close>

text \<open>
  The program keeps seven CSV files, one table each, and every operation reads whole
  tables and writes whole tables. A table is the list of its rows in file order; a row is
  a record of the CSV columns. Column names carry a prefix for their table because a
  selector name is global: \<open>st\<close> for \<open>stock_actual.csv\<close>, \<open>mv\<close> for
  \<open>stock_movimientos.csv\<close>, \<open>cat\<close> for the catalogue, \<open>pt\<close> for
  \<open>stock_productos.csv\<close>, \<open>pr\<close> for \<open>produccion.csv\<close>, \<open>pd\<close> for
  \<open>pedidos.csv\<close> and \<open>dp\<close> for \<open>despachos.csv\<close>.

  Quantities are Python integers, hence \<open>int\<close>. A timestamp is the string that
  \<open>strftime("%Y-%m-%d %H:%M:%S")\<close> prints, whose lexicographic order is the order of time.
  An empty CSV cell is \<open>None\<close> in \<open>st_ultima_entrada\<close> and in
  \<open>pr_variante_producto\<close>, and the empty string in the other text columns. What pandas
  does to a cell when it parses the file (numbers for digit strings, the text \<open>nan\<close>
  for an empty cell after \<open>astype(str)\<close>) is outside the model.
\<close>

type_synonym timestamp = string

record catalogo_row =
  cat_tipo :: string
  cat_variante :: string
  cat_stock_minimo :: int

record stock_row =
  st_tipo :: string
  st_variante :: string
  st_stock_minimo :: int
  st_stock_actual :: int
  st_ultima_entrada :: "timestamp option"
  st_proveedor_mas_frecuente :: string

record movimiento_row =
  mv_fecha :: timestamp
  mv_tipo_movimiento :: string
  mv_tipo :: string
  mv_variante :: string
  mv_cantidad :: int
  mv_proveedor :: string
  mv_documento :: string
  mv_observaciones :: string
  mv_usuario :: string

record producto_row =
  pt_tipo_producto :: string
  pt_variante_producto :: string
  pt_stock_actual :: int

record produccion_row =
  pr_fecha :: timestamp
  pr_tipo_producto :: string
  pr_cantidad :: int
  pr_usuario :: string
  pr_nota :: string
  pr_variante_producto :: "string option"

record pedido_row =
  pd_id :: int
  pd_fecha :: timestamp
  pd_cliente :: string
  pd_tipo_producto :: string
  pd_variante_producto :: string
  pd_cantidad :: int
  pd_fecha_entrega :: string
  pd_estado :: string
  pd_nota :: string

record despacho_row =
  dp_id_despacho :: int
  dp_fecha :: timestamp
  dp_pedido_id :: int
  dp_cliente :: string
  dp_tipo_producto :: string
  dp_variante_producto :: string
  dp_cantidad :: int
  dp_nota :: string
  dp_usuario :: string

text \<open>
  What the validation loops report for one consumption line: the line has no stock row,
  or the first matching row holds \<open>disp\<close>, less than the \<open>req\<close> required.
\<close>

datatype faltante =
    No_existe string string
  | Insuficiente string string int int

text \<open>
  The messages the handlers show through \<open>st.warning\<close>, \<open>st.error\<close> and
  \<open>st.success\<close>, with the values their f-strings print. \<open>E_value_error\<close> is the
  ValueError that \<open>page_produccion\<close> does not catch, and \<open>E_type_error\<close> the
  TypeError that the merge of duplicates does not catch.
\<close>

datatype aviso =
    W_combinacion_nueva
  | E_filas_coincidentes nat string string
  | E_variante_invalida
  | E_no_en_catalogo string string
  | E_catalogo_duplicado string string
  | S_entrada_registrada string string "int option"
  | E_no_se_pudo_actualizar
  | S_ajuste_aplicado "int option"
  | E_ajuste_negativo
  | E_falta_stock "faltante list"
  | E_fallo_descontar string string
  | E_value_error
  | E_type_error
  | S_produccion_registrada
  | W_pedido_no_encontrado int
  | W_cantidad_invalida
  | W_falta_mp "faltante list"
  | W_fallo_descontar_mp string string
  | S_produccion_generada int
  | W_sin_stock_terminados string string
  | W_terminados_insuficiente int int
  | S_pedido_despachado int
  | S_duplicados_fusionados

text \<open>
  The state: the seven tables as stored, and the messages shown so far. A statement that
  an operation stores nothing is about the tables.
\<close>

record app_state =
  catalogo :: "catalogo_row list"
  stock_mp :: "stock_row list"
  movimientos :: "movimiento_row list"
  productos :: "producto_row list"
  produccion :: "produccion_row list"
  pedidos :: "pedido_row list"
  despachos :: "despacho_row list"
  avisos :: "aviso list"

definition avisar :: "aviso \<Rightarrow> app_state \<Rightarrow> app_state" where
  "avisar a s = s\<lparr>avisos := avisos s @ [a]\<rparr>"

text \<open>
  How a handler ends: \<open>Exito\<close> when it reaches its \<open>st.success\<close>, \<open>Fallo\<close> when it
  leaves before (\<open>return\<close>, \<open>st.stop()\<close>, \<open>st.rerun()\<close> or an exception) or
  reports an error.
\<close>

datatype resultado = Exito | Fallo

datatype modo = Completo | Parcial

section \<open>Reading and writing tables\<close>

text \<open>
  \<open>read_df\<close> (source lines 161 to 178) strips the key columns of the catalogue and of
  the stock table, and the text columns of the movement log; the other tables are read as
  they are stored. \<open>save_df\<close> stores the table it is given.
\<close>

definition read_df_catalogo :: "app_state \<Rightarrow> catalogo_row list" where
  "read_df_catalogo s =
     map (\<lambda>r. r\<lparr>cat_tipo := strip (cat_tipo r), cat_variante := strip (cat_variante r)\<rparr>)
       (catalogo s)"

definition normalizar_stock :: "stock_row \<Rightarrow> stock_row" where
  "normalizar_stock r = r\<lparr>st_tipo := strip (st_tipo r), st_variante := strip (st_variante r)\<rparr>"

definition read_df_stock_mp :: "app_state \<Rightarrow> stock_row list" where
  "read_df_stock_mp s = map normalizar_stock (stock_mp s)"

definition read_df_movimientos :: "app_state \<Rightarrow> movimiento_row list" where
  "read_df_movimientos s =
     map (\<lambda>m. m\<lparr>mv_tipo := strip (mv_tipo m),
                mv_variante := strip (mv_variante m),
                mv_tipo_movimiento := strip (mv_tipo_movimiento m),
                mv_proveedor := strip (mv_proveedor m),
                mv_documento := strip (mv_documento m),
                mv_observaciones := strip (mv_observaciones m),
                mv_usuario := strip (mv_usuario m)\<rparr>)
       (movimientos s)"

section \<open>Movement log\<close>

text \<open>\<open>add_movimiento\<close> (source lines 185 to 200): read the log, append one row, save.\<close>

definition add_movimiento ::
  "timestamp \<Rightarrow> string \<Rightarrow> string \<Rightarrow> string \<Rightarrow> int \<Rightarrow> string \<Rightarrow> string \<Rightarrow> string \<Rightarrow> string \<Rightarrow>
   app_state \<Rightarrow> app_state" where
  "add_movimiento fecha tipo_mov tipo variante cantidad proveedor documento observaciones usuario s =
     (let mov = read_df_movimientos s;
          fila = \<lparr>mv_fecha = fecha, mv_tipo_movimiento = tipo_mov, mv_tipo = tipo,
                  mv_variante = variante, mv_cantidad = cantidad, mv_proveedor = proveedor,
                  mv_documento = documento, mv_observaciones = observaciones,
                  mv_usuario = usuario\<rparr>
      in s\<lparr>movimientos := mov @ [fila]\<rparr>)"

section \<open>Stock ledger\<close>

text \<open>
  \<open>value_counts().index[0]\<close>: the most frequent value of a column, the first one met
  among equally frequent values; \<open>None\<close> when the column is empty.
\<close>

fun mejor :: "string list \<Rightarrow> string \<Rightarrow> string list \<Rightarrow> string" where
  "mejor xs b [] = b"
| "mejor xs b (c # cs) = mejor xs (if count_list xs b < count_list xs c then c else b) cs"

definition value_counts_top :: "string list \<Rightarrow> string option" where
  "value_counts_top xs = (case xs of [] \<Rightarrow> None | x # _ \<Rightarrow> Some (mejor xs x xs))"

text \<open>
  \<open>actualizar_stock\<close> (source lines 203 to 242). The result is the pair the source
  returns, \<open>(ok, quantity)\<close> with \<open>None\<close> for Python's \<open>None\<close>, and the state after
  the call. \<open>now\<close> stands for the formatted \<open>datetime.now()\<close>. The table is saved on
  the last path only. Three parts of the body are named: the mask of lines 205 and 219, the
  row of lines 208 to 217, and the changes to the matched row of lines 229 to 240.
\<close>

definition mask_stock :: "string \<Rightarrow> string \<Rightarrow> stock_row \<Rightarrow> bool" where
  "mask_stock tipo variante r = (st_tipo r = tipo \<and> st_variante r = variante)"

definition fila_nueva :: "string \<Rightarrow> string \<Rightarrow> string \<Rightarrow> stock_row" where
  "fila_nueva tipo variante proveedor =
     \<lparr>st_tipo = tipo, st_variante = variante, st_stock_minimo = 0, st_stock_actual = 0,
      st_ultima_entrada = None, st_proveedor_mas_frecuente = proveedor\<rparr>"

definition fila_actualizada ::
  "string \<Rightarrow> string \<Rightarrow> int \<Rightarrow> string \<Rightarrow> bool \<Rightarrow> timestamp \<Rightarrow> app_state \<Rightarrow> stock_row \<Rightarrow> stock_row" where
  "fila_actualizada tipo variante nuevo_stock proveedor es_entrada now s fila =
     (let fila1 = fila\<lparr>st_stock_actual := nuevo_stock\<rparr>
      in if es_entrada then
           (let fila2 = fila1\<lparr>st_ultima_entrada := Some now\<rparr>
            in if proveedor \<noteq> [] then
                 (let mov = read_df_movimientos s;
                      provs = value_counts_top
                                (map mv_proveedor
                                   (filter (\<lambda>m. mv_tipo m = tipo \<and> mv_variante m = variante \<and>
                                                mv_tipo_movimiento m = ''ENTRADA'') mov))
                  in case provs of
                       None \<Rightarrow> fila2
                     | Some p \<Rightarrow> fila2\<lparr>st_proveedor_mas_frecuente := p\<rparr>)
               else fila2)
         else fila1)"

definition actualizar_stock ::
  "string \<Rightarrow> string \<Rightarrow> int \<Rightarrow> string \<Rightarrow> bool \<Rightarrow> timestamp \<Rightarrow> app_state \<Rightarrow>
   (bool \<times> int option) \<times> app_state" where
  "actualizar_stock tipo variante delta proveedor es_entrada now s =
     (let stock0 = read_df_stock_mp s;
          falta = (filter (mask_stock tipo variante) stock0 = []);
          s1 = (if falta then avisar W_combinacion_nueva s else s);
          stock = (if falta then stock0 @ [fila_nueva tipo variante proveedor] else stock0);
          idxs = filter (\<lambda>i. mask_stock tipo variante (stock ! i)) [0..<length stock]
      in if length idxs \<noteq> 1 then
           ((False, None), avisar (E_filas_coincidentes (length idxs) tipo variante) s1)
         else
           (let idx = hd idxs;
                nuevo_stock = st_stock_actual (stock ! idx) + delta
            in if nuevo_stock < 0 then ((False, Some (st_stock_actual (stock ! idx))), s1)
               else
                 ((True, Some nuevo_stock),
                  s1\<lparr>stock_mp :=
                       stock[idx := fila_actualizada tipo variante nuevo_stock proveedor
                                      es_entrada now s (stock ! idx)]\<rparr>)))"

text \<open>
  A sequence of calls of \<open>actualizar_stock\<close>, each with its own arguments and clock,
  run one after the other on the state the previous one left.
\<close>

type_synonym llamada = "string \<times> string \<times> int \<times> string \<times> bool \<times> timestamp"

fun aplicar_llamadas :: "llamada list \<Rightarrow> app_state \<Rightarrow> app_state" where
  "aplicar_llamadas [] s = s"
| "aplicar_llamadas ((tipo, variante, delta, proveedor, es_entrada, now) # cs) s =
     aplicar_llamadas cs (snd (actualizar_stock tipo variante delta proveedor es_entrada now s))"

definition stock_no_negativo :: "app_state \<Rightarrow> bool" where
  "stock_no_negativo s = list_all (\<lambda>r. 0 \<le> st_stock_actual r) (stock_mp s)"

section \<open>Entries and manual adjustments\<close>

text \<open>
  The submit branch of \<open>page_entradas\<close> (source lines 546 to 566), with the values of
  the form as arguments. \<open>fecha\<close> is the chosen date combined with the time of day.
\<close>

definition registrar_entrada ::
  "string \<Rightarrow> string \<Rightarrow> int \<Rightarrow> timestamp \<Rightarrow> string \<Rightarrow> string \<Rightarrow> string \<Rightarrow> string \<Rightarrow> timestamp \<Rightarrow>
   app_state \<Rightarrow> resultado \<times> app_state" where
  "registrar_entrada tipo variante cantidad fecha proveedor documento obs usuario now s =
     (let tipo_s = strip tipo;
          variante_s = strip variante
      in if variante_s = [] then (Fallo, avisar E_variante_invalida s)
         else
           (let count_cat = length (filter (\<lambda>c. strip (cat_tipo c) = tipo_s \<and>
                                               strip (cat_variante c) = variante_s)
                                      (read_df_catalogo s))
            in if count_cat = 0 then (Fallo, avisar (E_no_en_catalogo tipo_s variante_s) s)
               else if count_cat > 1 then
                 (Fallo, avisar (E_catalogo_duplicado tipo_s variante_s) s)
               else
                 (case actualizar_stock tipo_s variante_s cantidad proveedor True now s of
                    ((ok, nuevo), s1) \<Rightarrow>
                      if ok then
                        (Exito,
                         avisar (S_entrada_registrada tipo_s variante_s nuevo)
                           (add_movimiento fecha ''ENTRADA'' tipo_s variante_s cantidad
                              proveedor documento obs usuario s1))
                      else (Fallo, avisar E_no_se_pudo_actualizar s1))))"

text \<open>
  The button \<open>Aplicar ajuste\<close> of \<open>editable_stock_table\<close> (source lines 618 to 626).
  The number input of the adjustment runs from -100000 to 100000 and starts at 0.
\<close>

definition aplicar_ajuste ::
  "string \<Rightarrow> string \<Rightarrow> int \<Rightarrow> string \<Rightarrow> string \<Rightarrow> timestamp \<Rightarrow> app_state \<Rightarrow>
   resultado \<times> app_state" where
  "aplicar_ajuste tipo variante delta obs usuario now s =
     (case actualizar_stock tipo variante delta [] False now s of
        ((ok, nuevo), s1) \<Rightarrow>
          if ok then
            (let mov_tipo = (if delta \<ge> 0 then ''AJUSTE'' else ''SALIDA'')
             in (Exito,
                 avisar (S_ajuste_aplicado nuevo)
                   (add_movimiento now mov_tipo tipo variante \<bar>delta\<bar> [] [] obs usuario s1)))
          else (Fallo, avisar E_ajuste_negativo s1))"

section \<open>Merging duplicate stock rows\<close>

text \<open>
  The button \<open>Fusionar duplicados\<close> (source lines 640 to 651):
  \<open>groupby(["tipo", "variante"], as_index=False).agg(...)\<close>. The groups come out in the
  order of their keys. In a group, \<open>max\<close> of the minimum, \<open>sum\<close> of the quantity,
  \<open>max\<close> of the last entry, and \<open>first\<close> of the supplier over the rows that have one.

  The column of the last entry holds date strings and empty cells, which pandas reads as
  the float NaN. For \<open>max\<close> pandas puts the float \<open>-inf\<close> in the place of the empty
  cells of a group and compares the values: a group without a date gives an empty cell, a
  group where every row has a date gives the greatest date, and a group that has both
  raises TypeError, since a string is compared with a float. The exception leaves the
  handler before \<open>save_df\<close>, so nothing is stored.
\<close>

datatype py_error = TypeError

definition clave :: "stock_row \<Rightarrow> string \<times> string" where
  "clave r = (st_tipo r, st_variante r)"

fun max_list :: "int list \<Rightarrow> int" where
  "max_list [] = 0"
| "max_list [x] = x"
| "max_list (x # y # ys) = max x (max_list (y # ys))"

text \<open>The greatest of the dates that are present, for a group that does not mix.\<close>

fun max_presentes :: "timestamp option list \<Rightarrow> timestamp option" where
  "max_presentes [] = None"
| "max_presentes (None # fs) = max_presentes fs"
| "max_presentes (Some f # fs) =
     (case max_presentes fs of None \<Rightarrow> Some f | Some g \<Rightarrow> Some (max f g))"

definition max_fechas :: "timestamp option list \<Rightarrow> py_error + timestamp option" where
  "max_fechas fs =
     (if list_ex (\<lambda>f. f = None) fs \<and> list_ex (\<lambda>f. f \<noteq> None) fs then Inl TypeError
      else Inr (max_presentes fs))"

fun first_no_vacio :: "string list \<Rightarrow> string" where
  "first_no_vacio [] = []"
| "first_no_vacio (p # ps) = (if p \<noteq> [] then p else first_no_vacio ps)"

text \<open>The row of a group, once the greatest date of the group is known.\<close>

definition fila_agregada :: "string \<times> string \<Rightarrow> stock_row list \<Rightarrow> timestamp option \<Rightarrow> stock_row" where
  "fila_agregada k grupo ultima =
     \<lparr>st_tipo = fst k, st_variante = snd k,
      st_stock_minimo = max_list (map st_stock_minimo grupo),
      st_stock_actual = sum_list (map st_stock_actual grupo),
      st_ultima_entrada = ultima,
      st_proveedor_mas_frecuente = first_no_vacio (map st_proveedor_mas_frecuente grupo)\<rparr>"

definition agregar :: "string \<times> string \<Rightarrow> stock_row list \<Rightarrow> py_error + stock_row" where
  "agregar k grupo =
     (case max_fechas (map st_ultima_entrada grupo) of
        Inl e \<Rightarrow> Inl e
      | Inr ultima \<Rightarrow> Inr (fila_agregada k grupo ultima))"

text \<open>The rows of all the groups, or the exception of the first group that raises.\<close>

fun todas :: "(py_error + stock_row) list \<Rightarrow> py_error + stock_row list" where
  "todas [] = Inr []"
| "todas (Inl e # xs) = Inl e"
| "todas (Inr r # xs) = (case todas xs of Inl e \<Rightarrow> Inl e | Inr rs \<Rightarrow> Inr (r # rs))"

definition groupby_agg :: "stock_row list \<Rightarrow> py_error + stock_row list" where
  "groupby_agg base =
     todas (map (\<lambda>k. agregar k (filter (\<lambda>r. clave r = k) base))
              (sort (remdups (map clave base))))"

definition fusionar_duplicados :: "app_state \<Rightarrow> resultado \<times> app_state" where
  "fusionar_duplicados s =
     (let base = read_df_stock_mp s
      in case groupby_agg base of
           Inl e \<Rightarrow> (Fallo, avisar E_type_error s)
         | Inr agg \<Rightarrow> (Exito, avisar S_duplicados_fusionados (s\<lparr>stock_mp := agg\<rparr>)))"

section \<open>Production\<close>

text \<open>
  The validation loop that \<open>page_produccion\<close> (source lines 777 to 786) and
  \<open>page_pedidos\<close> (source lines 1076 to 1084) share: every line is compared with the first
  stock row of its key, and all the shortfalls are collected.
\<close>

fun validar :: "stock_row list \<Rightarrow> item list \<Rightarrow> faltante list" where
  "validar stock_df [] = []"
| "validar stock_df ((t, v, c) # resto) =
     (case filter (\<lambda>r. strip (st_tipo r) = strip t \<and> strip (st_variante r) = strip v) stock_df of
        [] \<Rightarrow> [No_existe t v]
      | r # _ \<Rightarrow> (if st_stock_actual r < c then [Insuficiente t v (st_stock_actual r) c] else []))
     @ validar stock_df resto"

text \<open>
  The finished goods credit at the end of both production handlers (source lines 801 to
  818 and 1106 to 1118). The mask compares the stripped columns with \<open>tipo_k\<close> and
  \<open>variante_k\<close>; a missing row is appended with \<open>tipo\<close> and \<open>variante\<close> as given.
  The source takes the first index of the mask, which raises when there is none.
\<close>

definition acreditar_terminado ::
  "string \<Rightarrow> string \<Rightarrow> string \<Rightarrow> string \<Rightarrow> int \<Rightarrow> app_state \<Rightarrow> app_state" where
  "acreditar_terminado tipo_k variante_k tipo variante cant s =
     (let prods0 = productos s;
          mask = (\<lambda>r. strip (pt_tipo_producto r) = tipo_k \<and>
                       strip (pt_variante_producto r) = variante_k);
          prods = (if filter mask prods0 = [] then
                     prods0 @ [\<lparr>pt_tipo_producto = tipo, pt_variante_producto = variante,
                                pt_stock_actual = 0\<rparr>]
                   else prods0)
      in case filter (\<lambda>i. mask (prods ! i)) [0..<length prods] of
           [] \<Rightarrow> s
         | idx # _ \<Rightarrow>
             s\<lparr>productos :=
                 prods[idx := (prods ! idx)\<lparr>pt_stock_actual := pt_stock_actual (prods ! idx) + cant\<rparr>]\<rparr>)"

text \<open>
  Step 4 of \<open>page_produccion\<close> (source lines 792 to 798): debit each line and log its
  exit; stop at the first debit that fails.
\<close>

fun aplicar_descuentos ::
  "string \<Rightarrow> string \<Rightarrow> timestamp \<Rightarrow> item list \<Rightarrow> app_state \<Rightarrow> resultado \<times> app_state" where
  "aplicar_descuentos tipo_prod usuario now [] s = (Exito, s)"
| "aplicar_descuentos tipo_prod usuario now ((t, v, c) # resto) s =
     (case actualizar_stock t v (- c) [] False now s of
        ((ok, _), s1) \<Rightarrow>
          if ok then
            aplicar_descuentos tipo_prod usuario now resto
              (add_movimiento now ''SALIDA'' t v c [] []
                 (''Producci'' @ [CHR 0xF3] @ ''n '' @ tipo_prod) usuario s1)
          else (Fallo, avisar (E_fallo_descontar t v) s1))"

text \<open>
  The submit branch of \<open>page_produccion\<close> (source lines 741 to 819), with the values of
  the form as arguments: \<open>items\<close> are the manual lines (empty unless manual consumption
  is ticked). The production row is stored first; the automatic lines are built inline,
  and for \<open>pinceleta\<close> the unpacking of the split is not guarded here.
\<close>

definition registrar_produccion ::
  "string \<Rightarrow> string \<Rightarrow> int \<Rightarrow> bool \<Rightarrow> item list \<Rightarrow> string \<Rightarrow> string \<Rightarrow> timestamp \<Rightarrow>
   app_state \<Rightarrow> resultado \<times> app_state" where
  "registrar_produccion tipo_prod variante_producto cant auto_desc items nota usuario now s =
     (let fila = \<lparr>pr_fecha = now, pr_tipo_producto = tipo_prod, pr_cantidad = cant,
                  pr_usuario = usuario, pr_nota = nota,
                  pr_variante_producto =
                    (if tipo_prod = ''pincel normal'' \<and> variante_producto \<noteq> []
                     then Some variante_producto else None)\<rparr>;
          s1 = s\<lparr>produccion := produccion s @ [fila]\<rparr>
      in if tipo_prod = ''pinceleta'' \<and> auto_desc \<and> variante_producto \<noteq> [] \<and>
            length (split_sep variante_producto) \<noteq> 2
         then (Fallo, avisar E_value_error s1)
         else
           (let auto_items =
                  (if tipo_prod = ''pincel normal'' \<and> auto_desc \<and> variante_producto \<noteq> [] then
                     (let medida_sel = hd (split_sep variante_producto);
                          mango_var = variante_producto;
                          chapita_var = medida_sel
                      in [(''Mango'', mango_var, cant), (''Chapita'', chapita_var, cant)])
                   else if tipo_prod = ''pinceleta'' \<and> auto_desc \<and> variante_producto \<noteq> [] then
                     (let color_sel = split_sep variante_producto ! 0;
                          chapita_sel = split_sep variante_producto ! 1
                      in [(''Manguito pinceleta'', color_sel, cant),
                          (''Chapita pinceleta'', chapita_sel, cant),
                          (''Cerda pinceleta'', estandar, cant)])
                   else []);
                manual_validos = filter (\<lambda>(t, v, c). t \<noteq> [] \<and> v \<noteq> [] \<and> c > 0) items;
                all_items = auto_items @ manual_validos;
                insuf = validar (read_df_stock_mp s1) all_items
            in if insuf \<noteq> [] then (Fallo, avisar (E_falta_stock insuf) s1)
               else
                 (case aplicar_descuentos tipo_prod usuario now all_items s1 of
                    (Fallo, s2) \<Rightarrow> (Fallo, s2)
                  | (Exito, s2) \<Rightarrow>
                      (Exito,
                       avisar S_produccion_registrada
                         (acreditar_terminado (strip tipo_prod) (strip variante_producto)
                            tipo_prod variante_producto cant s2)))))"

section \<open>Orders\<close>

text \<open>
  The debit loop of \<open>Generar produccion\<close> in \<open>page_pedidos\<close> (source lines 1099 to
  1105).
\<close>

fun descontar_pedido ::
  "int \<Rightarrow> string \<Rightarrow> timestamp \<Rightarrow> item list \<Rightarrow> app_state \<Rightarrow> resultado \<times> app_state" where
  "descontar_pedido pid usuario now [] s = (Exito, s)"
| "descontar_pedido pid usuario now ((t, v, c) # resto) s =
     (case actualizar_stock (strip t) (strip v) (- c) [] False now s of
        ((ok, _), s1) \<Rightarrow>
          if ok then
            descontar_pedido pid usuario now resto
              (add_movimiento now ''SALIDA'' (strip t) (strip v) c [] []
                 (''Producci'' @ [CHR 0xF3] @ ''n desde pedido '' @ str_int pid) usuario s1)
          else (Fallo, avisar (W_fallo_descontar_mp t v) s1))"

text \<open>
  The button \<open>Generar produccion\<close> of an order row (source lines 1060 to 1122).
  \<open>modo_prod\<close> and \<open>qty_prod\<close> are the radio button and the number input beside it.
\<close>

definition generar_produccion ::
  "int \<Rightarrow> modo \<Rightarrow> int \<Rightarrow> string \<Rightarrow> timestamp \<Rightarrow> app_state \<Rightarrow> resultado \<times> app_state" where
  "generar_produccion pid modo_prod qty_prod usuario now s =
     (let pedidos_base = pedidos s
      in case filter (\<lambda>r. pd_id r = pid) pedidos_base of
           [] \<Rightarrow> (Fallo, avisar (W_pedido_no_encontrado pid) s)
         | rb # _ \<Rightarrow>
             (let tipo_producto = strip (pd_tipo_producto rb);
                  variante_producto = strip (pd_variante_producto rb);
                  solicitado = pd_cantidad rb;
                  qty = (if modo_prod = Completo then solicitado else qty_prod)
              in if qty \<le> 0 then (Fallo, avisar W_cantidad_invalida s)
                 else
                   (let needs = compute_mp_needs tipo_producto variante_producto qty;
                        insuf = validar (read_df_stock_mp s) needs
                    in if insuf \<noteq> [] then (Fallo, avisar (W_falta_mp insuf) s)
                       else
                         (let fila = \<lparr>pr_fecha = now, pr_tipo_producto = tipo_producto,
                                      pr_cantidad = qty, pr_usuario = usuario,
                                      pr_nota = ''Generado desde pedido '' @ str_int pid,
                                      pr_variante_producto = Some variante_producto\<rparr>;
                              s1 = s\<lparr>produccion := produccion s @ [fila]\<rparr>
                          in case descontar_pedido pid usuario now needs s1 of
                               (Fallo, s2) \<Rightarrow> (Fallo, s2)
                             | (Exito, s2) \<Rightarrow>
                                 (let s3 = acreditar_terminado tipo_producto variante_producto
                                             tipo_producto variante_producto qty s2;
                                      s4 = s3\<lparr>pedidos :=
                                               map (\<lambda>r. if pd_id r = pid
                                                         then r\<lparr>pd_estado := ''en_produccion''\<rparr>
                                                         else r)
                                                 pedidos_base\<rparr>
                                  in (Exito, avisar (S_produccion_generada pid) s4))))))"

text \<open>
  The button \<open>Despachar\<close> of an order row (source lines 1130 to 1179). The three tables
  are saved together at the end.
\<close>

definition despachar ::
  "int \<Rightarrow> modo \<Rightarrow> int \<Rightarrow> string \<Rightarrow> timestamp \<Rightarrow> app_state \<Rightarrow> resultado \<times> app_state" where
  "despachar pid modo_row qty_row usuario now s =
     (let pedidos_base = pedidos s
      in case filter (\<lambda>r. pd_id r = pid) pedidos_base of
           [] \<Rightarrow> (Fallo, avisar (W_pedido_no_encontrado pid) s)
         | rb # _ \<Rightarrow>
             (let tipo_prod = strip (pd_tipo_producto rb);
                  variante_producto = strip (pd_variante_producto rb);
                  solicitado = pd_cantidad rb;
                  qty = (if modo_row = Completo then solicitado else qty_row)
              in if qty \<le> 0 then (Fallo, avisar W_cantidad_invalida s)
                 else
                   (let prods = productos s;
                        maskp = (\<lambda>r. strip (pt_tipo_producto r) = tipo_prod \<and>
                                      strip (pt_variante_producto r) = variante_producto)
                    in case filter (\<lambda>i. maskp (prods ! i)) [0..<length prods] of
                         [] \<Rightarrow> (Fallo, avisar (W_sin_stock_terminados tipo_prod variante_producto) s)
                       | idxp # _ \<Rightarrow>
                           (let disp = pt_stock_actual (prods ! idxp)
                            in if disp < qty then
                                 (Fallo, avisar (W_terminados_insuficiente disp qty) s)
                               else
                                 (let prods1 = prods[idxp := (prods ! idxp)\<lparr>pt_stock_actual := disp - qty\<rparr>];
                                      desp = despachos s;
                                      next_id = (if desp \<noteq> [] then max_list (map dp_id_despacho desp) + 1
                                                 else 1);
                                      fila_d = \<lparr>dp_id_despacho = next_id, dp_fecha = now,
                                                 dp_pedido_id = pid, dp_cliente = pd_cliente rb,
                                                 dp_tipo_producto = tipo_prod,
                                                 dp_variante_producto = variante_producto,
                                                 dp_cantidad = qty, dp_nota = [],
                                                 dp_usuario = usuario\<rparr>;
                                      estado = (if modo_row = Completo \<and> qty \<ge> solicitado
                                                then ''completado'' else ''confirmado'')
                                  in (Exito,
                                      avisar (S_pedido_despachado pid)
                                        (s\<lparr>productos := prods1,
                                           despachos := desp @ [fila_d],
                                           pedidos := map (\<lambda>r. if pd_id r = pid
                                                                then r\<lparr>pd_estado := estado\<rparr>
                                                                else r)
                                                        pedidos_base\<rparr>)))))))"

section \<open>Example states\<close>

text \<open>
  The states of the scenarios: a clock reading, the two raw material rows of a simple
  brush of size 15 with ferrule 1, and one order for ten of them.
\<close>

definition ahora :: timestamp where
  "ahora = ''2024-05-06 10:30:00''"

definition fila_mango :: "int \<Rightarrow> stock_row" where
  "fila_mango q =
     \<lparr>st_tipo = ''Mango'', st_variante = ''15 - virola 1'', st_stock_minimo = 50,
      st_stock_actual = q, st_ultima_entrada = None, st_proveedor_mas_frecuente = []\<rparr>"

definition fila_chapita :: "int \<Rightarrow> stock_row" where
  "fila_chapita q =
     \<lparr>st_tipo = ''Chapita'', st_variante = ''15'', st_stock_minimo = 50,
      st_stock_actual = q, st_ultima_entrada = None, st_proveedor_mas_frecuente = []\<rparr>"

definition estado_vacio :: app_state where
  "estado_vacio =
     \<lparr>catalogo = [], stock_mp = [], movimientos = [], productos = [], produccion = [],
      pedidos = [], despachos = [], avisos = []\<rparr>"

definition escenario :: "int \<Rightarrow> int \<Rightarrow> app_state" where
  "escenario mangos chapitas =
     estado_vacio
       \<lparr>catalogo := [\<lparr>cat_tipo = ''Mango'', cat_variante = ''15 - virola 1'', cat_stock_minimo = 50\<rparr>,
                     \<lparr>cat_tipo = ''Chapita'', cat_variante = ''15'', cat_stock_minimo = 50\<rparr>],
        stock_mp := [fila_mango mangos, fila_chapita chapitas]\<rparr>"

definition pedido_1 :: "string \<Rightarrow> pedido_row" where
  "pedido_1 estado =
     \<lparr>pd_id = 1, pd_fecha = ''2024-05-02 09:00:00'', pd_cliente = ''Ferreteria Sur'',
      pd_tipo_producto = ''pincel normal'', pd_variante_producto = ''15 - virola 1'',
      pd_cantidad = 10, pd_fecha_entrega = ''2024-05-20'', pd_estado = estado, pd_nota = []\<rparr>"

definition terminado_15 :: "int \<Rightarrow> producto_row" where
  "terminado_15 q =
     \<lparr>pt_tipo_producto = ''pincel normal'', pt_variante_producto = ''15 - virola 1'',
      pt_stock_actual = q\<rparr>"

definition estado_con_pedido :: "string \<Rightarrow> app_state" where
  "estado_con_pedido estado = (escenario 40 40)\<lparr>pedidos := [pedido_1 estado]\<rparr>"

definition estado_despacho :: "int \<Rightarrow> app_state" where
  "estado_despacho q =
     estado_vacio\<lparr>pedidos := [pedido_1 ''pendiente''], productos := [terminado_15 q]\<rparr>"

section \<open>Properties of the recipe resolver\<close>

lemma split_sep_nonempty: "split_sep s \<noteq> []"
  by (induction s rule: split_sep.induct) (auto split: list.splits)

lemma split_sep_no_sep: "\<not> has_sep b \<Longrightarrow> split_sep b = [b]"
  by (induction b rule: split_sep.induct) (auto split: list.splits)

lemma take3_no_sep: "\<not> has_sep ((c # a) @ '' -'') \<Longrightarrow> take 3 (c # a @ '' - '' @ b) \<noteq> '' - ''"
  by (cases a; cases "tl a") auto

lemma split_sep_first:
  "\<not> has_sep (a @ '' -'') \<Longrightarrow> split_sep (a @ '' - '' @ b) = a # split_sep b"
proof (induction a)
  case Nil
  then show ?case by simp
next
  case (Cons c a)
  have "take 3 (c # a @ '' - '' @ b) \<noteq> '' - ''" using Cons.prems by (rule take3_no_sep)
  moreover have "\<not> has_sep (a @ '' -'')" using Cons.prems by simp
  ultimately show ?case using Cons.IH by simp
qed

lemma hd_split_sep_first:
  "\<not> has_sep (a @ '' -'') \<Longrightarrow> hd (split_sep (a @ '' - '' @ b)) = a"
  using split_sep_first [of a b] by simp

lemma split_sep_two:
  "\<not> has_sep (a @ '' -'') \<Longrightarrow> \<not> has_sep b \<Longrightarrow> split_sep (a @ '' - '' @ b) = [a, b]"
  using split_sep_first [of a b] split_sep_no_sep [of b] by simp

text \<open>
  C5. The recipe resolver is a function of product type, variant and quantity alone. For
  \<open>pincel normal\<close> with the variant \<open>size - ferrule\<close> it returns the Mango line of the
  whole variant and then the Chapita line of the size; for \<open>pinceleta\<close> with the variant
  \<open>colour - ferrule size\<close> it returns the Manguito line of the colour, the Chapita
  pinceleta line of the ferrule size and the Cerda pinceleta line of the standard variant,
  in that order; for every other product type it returns no line. The names are the
  pieces of the encoding: the separator written between them is the first one of the
  variant (it does not start inside the size or the colour), and for \<open>pinceleta\<close> it is
  the only one and both names are non-empty.
\<close>

theorem compute_mp_needs_recipe:
  "(\<not> has_sep (medida @ '' -'') \<longrightarrow>
      compute_mp_needs ''pincel normal'' (medida @ '' - '' @ virola) cantidad =
        [(''Mango'', medida @ '' - '' @ virola, cantidad), (''Chapita'', medida, cantidad)])
   \<and> (color \<noteq> [] \<and> chapita \<noteq> [] \<and> \<not> has_sep (color @ '' -'') \<and> \<not> has_sep chapita \<longrightarrow>
      compute_mp_needs ''pinceleta'' (color @ '' - '' @ chapita) cantidad =
        [(''Manguito pinceleta'', color, cantidad),
         (''Chapita pinceleta'', chapita, cantidad),
         (''Cerda pinceleta'', estandar, cantidad)])
   \<and> (tipo_prod \<noteq> ''pincel normal'' \<and> tipo_prod \<noteq> ''pinceleta'' \<longrightarrow>
      compute_mp_needs tipo_prod variante cantidad = [])"
proof (intro conjI impI)
  assume "\<not> has_sep (medida @ '' -'')"
  then have "hd (split_sep (medida @ '' - '' @ virola)) = medida"
    by (rule hd_split_sep_first)
  then show "compute_mp_needs ''pincel normal'' (medida @ '' - '' @ virola) cantidad =
        [(''Mango'', medida @ '' - '' @ virola, cantidad), (''Chapita'', medida, cantidad)]"
    by (simp add: compute_mp_needs_def)
next
  assume h: "color \<noteq> [] \<and> chapita \<noteq> [] \<and> \<not> has_sep (color @ '' -'') \<and> \<not> has_sep chapita"
  then have "split_sep (color @ '' - '' @ chapita) = [color, chapita]"
    using split_sep_two [of color chapita] by simp
  with h show "compute_mp_needs ''pinceleta'' (color @ '' - '' @ chapita) cantidad =
        [(''Manguito pinceleta'', color, cantidad),
         (''Chapita pinceleta'', chapita, cantidad),
         (''Cerda pinceleta'', estandar, cantidad)]"
    by (simp add: compute_mp_needs_def)
next
  assume "tipo_prod \<noteq> ''pincel normal'' \<and> tipo_prod \<noteq> ''pinceleta''"
  then show "compute_mp_needs tipo_prod variante cantidad = []"
    by (simp add: compute_mp_needs_def)
qed

theorem compute_mp_needs_recipe_witness:
  "compute_mp_needs ''pincel normal'' ''15 - virola 1'' 5 =
     [(''Mango'', ''15 - virola 1'', 5), (''Chapita'', ''15'', 5)]
   \<and> compute_mp_needs ''pinceleta'' ''blanco - 40'' 5 =
     [(''Manguito pinceleta'', ''blanco'', 5), (''Chapita pinceleta'', ''40'', 5),
      (''Cerda pinceleta'', estandar, 5)]
   \<and> compute_mp_needs ''rodillo'' ''22'' 5 = []"
  using compute_mp_needs_recipe [of "''15''" "''virola 1''" 5 "''blanco''" "''40''" "''rodillo''" "''22''"]
  by simp

section \<open>Properties of the stock ledger\<close>

lemma idxs_map: "map (nth xs) (filter (\<lambda>i. P (xs ! i)) [0..<length xs]) = filter P xs"
proof -
  have "filter P (map (nth xs) [0..<length xs]) = map (nth xs) (filter (P \<circ> nth xs) [0..<length xs])"
    by (rule filter_map)
  then show ?thesis by (simp add: map_nth comp_def)
qed

lemma idxs_length: "length (filter (\<lambda>i. P (xs ! i)) [0..<length xs]) = length (filter P xs)"
proof -
  have "length (map (nth xs) (filter (\<lambda>i. P (xs ! i)) [0..<length xs])) = length (filter P xs)"
    by (simp only: idxs_map)
  then show ?thesis by simp
qed

lemma list_all_update: "list_all P xs \<Longrightarrow> P x \<Longrightarrow> list_all P (xs[i := x])"
  using set_update_subset_insert [of xs i x] by (auto simp: list_all_iff)

lemma normalizar_stock_actual: "st_stock_actual (normalizar_stock r) = st_stock_actual r"
  by (simp add: normalizar_stock_def)

lemma fila_actualizada_stock:
  "st_stock_actual (fila_actualizada tipo variante n proveedor es_entrada now s fila) = n"
  by (simp add: fila_actualizada_def Let_def split: option.splits)

lemma no_negativo_read: "stock_no_negativo s \<Longrightarrow> list_all (\<lambda>r. 0 \<le> st_stock_actual r) (read_df_stock_mp s)"
  by (simp add: stock_no_negativo_def read_df_stock_mp_def list_all_iff normalizar_stock_actual)

lemma actualizar_stock_no_negativo:
  assumes "stock_no_negativo s"
  shows "stock_no_negativo (snd (actualizar_stock tipo variante delta proveedor es_entrada now s))"
proof -
  let ?P = "\<lambda>r. 0 \<le> st_stock_actual r"
  have r: "list_all ?P (read_df_stock_mp s)" using assms by (rule no_negativo_read)
  have n: "list_all ?P (read_df_stock_mp s @ [fila_nueva tipo variante proveedor])"
    using r by (simp add: fila_nueva_def)
  have u: "list_all ?P xs \<Longrightarrow> 0 \<le> k \<Longrightarrow>
      list_all ?P (xs[i := fila_actualizada tipo variante k proveedor es_entrada now s f])" for xs i k f
    by (rule list_all_update) (simp_all add: fila_actualizada_stock)
  show ?thesis
    using assms r n
    by (simp add: actualizar_stock_def Let_def stock_no_negativo_def avisar_def u)
qed


lemma idxs_unico:
  assumes "length (filter (\<lambda>i. P (xs ! i)) [0..<length xs]) = 1"
  shows "filter P xs = [xs ! hd (filter (\<lambda>i. P (xs ! i)) [0..<length xs])]"
proof -
  obtain i where i: "filter (\<lambda>i. P (xs ! i)) [0..<length xs] = [i]"
    using assms by (cases "filter (\<lambda>i. P (xs ! i)) [0..<length xs]") auto
  have "map (nth xs) [i] = filter P xs" using idxs_map [of xs P] by (simp only: i)
  then show ?thesis by (simp add: i)
qed

lemma idxs_fila_nueva:
  assumes "filter P xs = []" and "P y"
  shows "filter (\<lambda>i. P ((xs @ [y]) ! i)) [0..<length (xs @ [y])] = [length xs]"
proof -
  have "\<And>i. i < length xs \<Longrightarrow> \<not> P (xs ! i)"
    using assms(1) by (simp add: filter_empty_conv)
  then have "filter (\<lambda>i. P ((xs @ [y]) ! i)) [0..<length xs] = []"
    by (simp add: filter_empty_conv nth_append)
  then show ?thesis using assms(2) by simp
qed

lemma actualizar_stock_duplicados_aux:
  assumes "1 < length (filter (mask_stock tipo variante) (read_df_stock_mp s))"
  shows "actualizar_stock tipo variante delta proveedor es_entrada now s =
           ((False, None),
            avisar (E_filas_coincidentes
                      (length (filter (mask_stock tipo variante) (read_df_stock_mp s)))
                      tipo variante) s)"
proof -
  have f: "filter (mask_stock tipo variante) (read_df_stock_mp s) \<noteq> []"
    using assms by auto
  show ?thesis using assms f
    by (simp add: actualizar_stock_def Let_def idxs_length)
qed

lemma actualizar_stock_sin_fila_aux:
  assumes "filter (mask_stock tipo variante) (read_df_stock_mp s) = []" and "delta < 0"
  shows "actualizar_stock tipo variante delta proveedor es_entrada now s =
           ((False, Some 0), avisar W_combinacion_nueva s)"
proof -
  have m: "mask_stock tipo variante (fila_nueva tipo variante proveedor)"
    by (simp add: mask_stock_def fila_nueva_def)
  have i: "filter (\<lambda>i. mask_stock tipo variante
                      ((read_df_stock_mp s @ [fila_nueva tipo variante proveedor]) ! i))
             [0..<length (read_df_stock_mp s @ [fila_nueva tipo variante proveedor])] =
           [length (read_df_stock_mp s)]"
    using assms(1) m by (rule idxs_fila_nueva)
  have q: "st_stock_actual (fila_nueva tipo variante proveedor) = 0"
    by (simp add: fila_nueva_def)
  show ?thesis
    using assms m i q by (simp add: actualizar_stock_def Let_def)
qed

lemma actualizar_stock_rechazo_aux:
  fixes proveedor :: string and es_entrada :: bool and now :: timestamp
  assumes r: "r \<in> set (read_df_stock_mp s)" and m: "mask_stock tipo variante r"
    and neg: "st_stock_actual r + delta < 0"
  defines "R \<equiv> actualizar_stock tipo variante delta proveedor es_entrada now s"
  shows "fst (fst R) = False" and "stock_mp (snd R) = stock_mp s"
    and "filter (mask_stock tipo variante) (read_df_stock_mp s) = [r] \<Longrightarrow>
         R = ((False, Some (st_stock_actual r)), s)"
proof -
  let ?xs = "read_df_stock_mp s"
  let ?idxs = "filter (\<lambda>i. mask_stock tipo variante (?xs ! i)) [0..<length ?xs]"
  have ne: "filter (mask_stock tipo variante) ?xs \<noteq> []"
    using r m by (auto simp: filter_empty_conv)
  have one: "st_stock_actual (?xs ! hd ?idxs) + delta < 0" if "length ?idxs = 1"
  proof -
    have "filter (mask_stock tipo variante) ?xs = [?xs ! hd ?idxs]" using that by (rule idxs_unico)
    moreover have "r \<in> set (filter (mask_stock tipo variante) ?xs)" using r m by simp
    ultimately have "r = ?xs ! hd ?idxs" by simp
    then show ?thesis using neg by simp
  qed
  show "fst (fst R) = False" using ne one
    by (simp add: R_def actualizar_stock_def Let_def)
  show "stock_mp (snd R) = stock_mp s" using ne one
    by (simp add: R_def actualizar_stock_def Let_def avisar_def)
  show "R = ((False, Some (st_stock_actual r)), s)"
    if u: "filter (mask_stock tipo variante) ?xs = [r]"
  proof -
    have l: "length ?idxs = 1" using u by (simp add: idxs_length)
    have "filter (mask_stock tipo variante) ?xs = [?xs ! hd ?idxs]" using l by (rule idxs_unico)
    then have e: "?xs ! hd ?idxs = r" using u by simp
    show ?thesis using ne l neg e
      by (simp add: R_def actualizar_stock_def Let_def)
  qed
qed

lemma aplicar_llamadas_no_negativo:
  "stock_no_negativo s \<Longrightarrow> stock_no_negativo (aplicar_llamadas cs s)"
proof (induction cs arbitrary: s)
  case Nil
  then show ?case by simp
next
  case (Cons c cs)
  obtain tipo variante delta proveedor es_entrada now
    where c: "c = (tipo, variante, delta, proveedor, es_entrada, now)"
    by (cases c) auto
  have "stock_no_negativo (snd (actualizar_stock tipo variante delta proveedor es_entrada now s))"
    using Cons.prems by (rule actualizar_stock_no_negativo)
  then show ?case using Cons.IH by (simp add: c)
qed

text \<open>
  C2. Along every sequence of calls of \<open>actualizar_stock\<close>, a stock table without
  negative quantities stays so. A call whose delta would take a matching row below zero is
  rejected and leaves the stored table as it was; when that row is the only one of its key,
  the call returns failure with the current quantity and changes nothing at all. A
  negative delta for a key without a row is rejected too, with the quantity 0 of the row
  that would have been created, and the stored table is as it was.
\<close>

theorem actualizar_stock_nunca_negativo:
  "(stock_no_negativo s \<longrightarrow> stock_no_negativo (aplicar_llamadas cs s))
   \<and> (r \<in> set (read_df_stock_mp s) \<and> mask_stock tipo variante r \<and>
        st_stock_actual r + delta < 0 \<longrightarrow>
          fst (fst (actualizar_stock tipo variante delta proveedor es_entrada now s)) = False
        \<and> stock_mp (snd (actualizar_stock tipo variante delta proveedor es_entrada now s)) =
            stock_mp s
        \<and> (filter (mask_stock tipo variante) (read_df_stock_mp s) = [r] \<longrightarrow>
             actualizar_stock tipo variante delta proveedor es_entrada now s =
               ((False, Some (st_stock_actual r)), s)))
   \<and> (filter (mask_stock tipo variante) (read_df_stock_mp s) = [] \<and> delta < 0 \<longrightarrow>
          actualizar_stock tipo variante delta proveedor es_entrada now s =
            ((False, Some 0), avisar W_combinacion_nueva s)
        \<and> stock_mp (avisar W_combinacion_nueva s) = stock_mp s)"
  using aplicar_llamadas_no_negativo [of s cs]
    actualizar_stock_rechazo_aux [of r s tipo variante delta proveedor es_entrada now]
    actualizar_stock_sin_fila_aux [of tipo variante s delta proveedor es_entrada now]
  by (simp add: avisar_def)

theorem actualizar_stock_nunca_negativo_witness:
  "stock_no_negativo (escenario 20 3)
   \<and> stock_no_negativo
       (aplicar_llamadas
          [(''Mango'', ''15 - virola 1'', - 5, [], False, ahora),
           (''Chapita'', ''15'', - 5, [], False, ahora),
           (''Cerda'', ''7'', 4, ''ACME'', True, ahora)]
          (escenario 20 3))
   \<and> actualizar_stock ''Chapita'' ''15'' (- 5) [] False ahora (escenario 20 3) =
       ((False, Some 3), escenario 20 3)"
proof -
  have h1: "stock_no_negativo (escenario 20 3)" by code_simp
  have h2: "fila_chapita 3 \<in> set (read_df_stock_mp (escenario 20 3))" by code_simp
  have h3: "mask_stock ''Chapita'' ''15'' (fila_chapita 3)" by code_simp
  have h4: "st_stock_actual (fila_chapita 3) + (- 5) < 0" by code_simp
  have h5: "filter (mask_stock ''Chapita'' ''15'') (read_df_stock_mp (escenario 20 3)) = [fila_chapita 3]"
    by code_simp
  have h6: "st_stock_actual (fila_chapita 3) = 3" by code_simp
  show ?thesis
    using actualizar_stock_nunca_negativo
      [of "escenario 20 3"
          "[(''Mango'', ''15 - virola 1'', - 5, [], False, ahora),
            (''Chapita'', ''15'', - 5, [], False, ahora),
            (''Cerda'', ''7'', 4, ''ACME'', True, ahora)]"
          "fila_chapita 3" "''Chapita''" "''15''" "- 5" "[]" False ahora]
      h1 h2 h3 h4 h5 h6
    by simp
qed

text \<open>
  C6. A call of \<open>actualizar_stock\<close> whose key matches more than one stock row returns
  \<open>(False, None)\<close>, reports the number of matching rows with the key, and stores
  nothing: the state after the call is the state before it with that message added.
\<close>

theorem actualizar_stock_duplicados:
  "1 < length (filter (mask_stock tipo variante) (read_df_stock_mp s)) \<Longrightarrow>
     actualizar_stock tipo variante delta proveedor es_entrada now s =
       ((False, None),
        avisar (E_filas_coincidentes
                  (length (filter (mask_stock tipo variante) (read_df_stock_mp s)))
                  tipo variante) s)
   \<and> stock_mp (snd (actualizar_stock tipo variante delta proveedor es_entrada now s)) =
       stock_mp s"
  by (simp add: actualizar_stock_duplicados_aux avisar_def)

theorem actualizar_stock_duplicados_witness:
  "actualizar_stock ''Mango'' ''15 - virola 1'' 5 ''ACME'' True ahora
     (estado_vacio\<lparr>stock_mp := [fila_mango 3, fila_chapita 2, fila_mango 4]\<rparr>) =
     ((False, None),
      estado_vacio\<lparr>stock_mp := [fila_mango 3, fila_chapita 2, fila_mango 4],
                   avisos := [E_filas_coincidentes 2 ''Mango'' ''15 - virola 1'']\<rparr>)"
proof -
  let ?s = "estado_vacio\<lparr>stock_mp := [fila_mango 3, fila_chapita 2, fila_mango 4]\<rparr>"
  have n: "length (filter (mask_stock ''Mango'' ''15 - virola 1'') (read_df_stock_mp ?s)) = 2"
    by code_simp
  have a: "avisar (E_filas_coincidentes 2 ''Mango'' ''15 - virola 1'') ?s =
           estado_vacio\<lparr>stock_mp := [fila_mango 3, fila_chapita 2, fila_mango 4],
                   avisos := [E_filas_coincidentes 2 ''Mango'' ''15 - virola 1'']\<rparr>"
    by (simp add: avisar_def estado_vacio_def)
  show ?thesis
    using actualizar_stock_duplicados [of "''Mango''" "''15 - virola 1''" ?s 5 "''ACME''" True ahora]
    by (simp only: n a)
qed

text \<open>
  C9. A call of \<open>actualizar_stock\<close> with a negative delta for a key that has no stock
  row fails, with the quantity 0 of the row it had prepared, and the stored stock table is
  unchanged: the prepared row is not saved.
\<close>

theorem actualizar_stock_sin_fila:
  "filter (mask_stock tipo variante) (read_df_stock_mp s) = [] \<Longrightarrow> delta < 0 \<Longrightarrow>
     actualizar_stock tipo variante delta proveedor es_entrada now s =
       ((False, Some 0), avisar W_combinacion_nueva s)
   \<and> stock_mp (snd (actualizar_stock tipo variante delta proveedor es_entrada now s)) =
       stock_mp s"
  by (simp add: actualizar_stock_sin_fila_aux avisar_def)

theorem actualizar_stock_sin_fila_witness:
  "actualizar_stock ''Cerda'' ''7'' (- 2) [] False ahora (escenario 20 3) =
     ((False, Some 0), (escenario 20 3)\<lparr>avisos := [W_combinacion_nueva]\<rparr>)
   \<and> stock_mp (snd (actualizar_stock ''Cerda'' ''7'' (- 2) [] False ahora (escenario 20 3))) =
       [fila_mango 20, fila_chapita 3]"
proof -
  have h: "filter (mask_stock ''Cerda'' ''7'') (read_df_stock_mp (escenario 20 3)) = []"
    by code_simp
  have a: "avisar W_combinacion_nueva (escenario 20 3) =
           (escenario 20 3)\<lparr>avisos := [W_combinacion_nueva]\<rparr>"
    by (simp add: avisar_def escenario_def estado_vacio_def)
  have s: "stock_mp (escenario 20 3) = [fila_mango 20, fila_chapita 3]"
    by (simp add: escenario_def)
  show ?thesis
    using actualizar_stock_sin_fila [OF h, of "- 2" "[]" False ahora]
    by (simp add: a s)
qed

section \<open>The first entry of a supplier\<close>

text \<open>
  C4. Scenario 1: the stock row of Mango, variant \<open>15 - virola 1\<close>, holds 0 and the
  movement log is empty; an entry of 20 from the supplier ACME is registered
  (\<open>actualizar_stock\<close> as an entry, then the ENTRADA movement). The quantity becomes 20,
  the time of the last entry is set and one ENTRADA movement of 20 from ACME is logged,
  but the most frequent supplier of the row stays empty: it is computed from the log
  before the movement of this entry is appended.
\<close>

theorem registrar_entrada_primer_proveedor:
  "fst (registrar_entrada ''Mango'' ''15 - virola 1'' 20 ahora ''ACME'' [] [] ''operario'' ahora
          (escenario 0 0)) = Exito
   \<and> map (\<lambda>r. (st_tipo r, st_variante r, st_stock_actual r, st_ultima_entrada r,
                st_proveedor_mas_frecuente r))
       (stock_mp (snd (registrar_entrada ''Mango'' ''15 - virola 1'' 20 ahora ''ACME'' [] []
                         ''operario'' ahora (escenario 0 0)))) =
       [(''Mango'', ''15 - virola 1'', 20, Some ahora, []), (''Chapita'', ''15'', 0, None, [])]
   \<and> map (\<lambda>m. (mv_tipo_movimiento m, mv_tipo m, mv_variante m, mv_cantidad m, mv_proveedor m))
       (movimientos (snd (registrar_entrada ''Mango'' ''15 - virola 1'' 20 ahora ''ACME'' [] []
                            ''operario'' ahora (escenario 0 0)))) =
       [(''ENTRADA'', ''Mango'', ''15 - virola 1'', 20, ''ACME'')]"
  by code_simp

text \<open>
  The same function records the supplier at once when it creates the row (here the stock
  table is empty and the catalogue has the pair), and a second entry from ACME finds the
  movement of the first one.
\<close>

lemma registrar_entrada_fila_nueva:
  "map (\<lambda>r. (st_tipo r, st_variante r, st_stock_actual r, st_proveedor_mas_frecuente r))
     (stock_mp (snd (registrar_entrada ''Mango'' ''15 - virola 1'' 20 ahora ''ACME'' [] []
                       ''operario'' ahora ((escenario 0 0)\<lparr>stock_mp := []\<rparr>)))) =
     [(''Mango'', ''15 - virola 1'', 20, ''ACME'')]"
  by code_simp

lemma registrar_entrada_segunda:
  "map (\<lambda>r. (st_tipo r, st_variante r, st_stock_actual r, st_proveedor_mas_frecuente r))
     (stock_mp (snd (registrar_entrada ''Mango'' ''15 - virola 1'' 5 ahora ''ACME'' [] []
                       ''operario'' ahora
                       (snd (registrar_entrada ''Mango'' ''15 - virola 1'' 20 ahora ''ACME'' [] []
                               ''operario'' ahora (escenario 0 0)))))) =
     [(''Mango'', ''15 - virola 1'', 25, ''ACME''), (''Chapita'', ''15'', 0, [])]"
  by code_simp

section \<open>Manual adjustments\<close>

text \<open>
  C8. The movements that entries, manual adjustments and production exits append should
  all have a quantity above 0. A manual adjustment of 0, the value the form starts with,
  is accepted by \<open>actualizar_stock\<close> and logged as an AJUSTE movement of quantity 0.
\<close>

theorem aplicar_ajuste_cero:
  "fst (aplicar_ajuste ''Mango'' ''15 - virola 1'' 0 ''Ajuste manual'' ''operario'' ahora
          (escenario 7 0)) = Exito
   \<and> map (\<lambda>m. (mv_tipo_movimiento m, mv_tipo m, mv_variante m, mv_cantidad m))
       (movimientos (snd (aplicar_ajuste ''Mango'' ''15 - virola 1'' 0 ''Ajuste manual''
                            ''operario'' ahora (escenario 7 0)))) =
       [(''AJUSTE'', ''Mango'', ''15 - virola 1'', 0)]"
  by code_simp

text \<open>
  The production handlers keep quantities above 0: the order handler refuses a quantity
  that is not positive, and \<open>page_produccion\<close> drops the manual lines whose quantity is
  not positive.
\<close>

lemma generar_produccion_cantidad_invalida:
  assumes "filter (\<lambda>r. pd_id r = pid) (pedidos s) = rb # resto"
    and "(if modo_prod = Completo then pd_cantidad rb else qty_prod) \<le> 0"
  shows "generar_produccion pid modo_prod qty_prod usuario now s =
           (Fallo, avisar W_cantidad_invalida s)"
  using assms by (simp add: generar_produccion_def Let_def)

lemma registrar_produccion_manual_validos:
  "registrar_produccion tipo_prod variante_producto cant auto_desc items nota usuario now s =
   registrar_produccion tipo_prod variante_producto cant auto_desc
     (filter (\<lambda>(t, v, c). t \<noteq> [] \<and> v \<noteq> [] \<and> c > 0) items) nota usuario now s"
  by (simp add: registrar_produccion_def Let_def case_prod_unfold)

section \<open>Properties of the merge of duplicates\<close>

lemma dropWhile_rev_strip:
  "dropWhile P (rev (dropWhile P (rev (dropWhile P s)))) = rev (dropWhile P (rev (dropWhile P s)))"
proof -
  let ?u = "dropWhile P s"
  let ?w = "dropWhile P (rev ?u)"
  show ?thesis
  proof (cases "?w = []")
    case True
    show ?thesis unfolding True by simp
  next
    case False
    obtain x where x: "x \<in> set (rev ?u)" "\<not> P x"
      using False by (auto simp: dropWhile_eq_Nil_conv)
    have "last ?w = last (rev ?u)" using x by (rule dropWhile_last)
    also have "\<dots> = hd ?u" by (simp add: last_rev)
    finally have "hd (rev ?w) = hd ?u" by (simp add: hd_rev)
    moreover have "?u \<noteq> []"
    proof
      assume e: "?u = []"
      show False using x(1) unfolding e by simp
    qed
    then have "\<not> P (hd ?u)" by (metis dropWhile_eq_self_iff dropWhile_idem)
    ultimately show ?thesis using False by (simp add: dropWhile_eq_self_iff)
  qed
qed

lemma strip_idem: "strip (strip s) = strip s"
proof -
  let ?w = "dropWhile is_space (rev (dropWhile is_space s))"
  have "strip (strip s) = rev (dropWhile is_space (rev (dropWhile is_space (rev ?w))))"
    by (simp add: strip_def)
  also have "\<dots> = rev (dropWhile is_space (rev (rev ?w)))"
    by (simp only: dropWhile_rev_strip)
  also have "\<dots> = rev ?w" by simp
  finally show ?thesis by (simp add: strip_def)
qed

lemma normalizar_stock_idem: "normalizar_stock (normalizar_stock r) = normalizar_stock r"
  by (simp add: normalizar_stock_def strip_idem)

lemma todas_Inr: "todas xs = Inr ys \<Longrightarrow> xs = map Inr ys"
proof (induction xs arbitrary: ys)
  case Nil
  then show ?case by simp
next
  case (Cons x xs)
  then show ?case by (cases x) (auto split: sum.splits)
qed

lemma todas_map_Inr: "todas (map Inr ys) = Inr ys"
  by (induction ys) simp_all

lemma max_fechas_singleton: "max_fechas [f] = Inr f"
  by (cases f) (simp_all add: max_fechas_def)

lemma agregar_singleton: "agregar (clave r) [r] = Inr r"
  by (simp add: agregar_def max_fechas_singleton fila_agregada_def clave_def)

lemma clave_agregar: "agregar k g = Inr r \<Longrightarrow> clave r = k"
  by (auto simp: agregar_def fila_agregada_def clave_def split: sum.splits)

lemma filter_clave_unico:
  "distinct ks \<Longrightarrow> k \<in> set ks \<Longrightarrow> (\<And>j. j \<in> set ks \<Longrightarrow> clave (h j) = j) \<Longrightarrow>
   filter (\<lambda>r. clave r = k) (map h ks) = [h k]"
proof (induction ks)
  case Nil
  then show ?case by simp
next
  case (Cons a ks)
  have c: "\<And>j. j \<in> set ks \<Longrightarrow> clave (h j) = j" using Cons.prems(3) by simp
  show ?case
  proof (cases "a = k")
    case True
    then have "k \<notin> set ks" using Cons.prems(1) by simp
    then have "filter (\<lambda>r. clave r = k) (map h ks) = []"
      using c by (auto simp: filter_empty_conv)
    then show ?thesis using True Cons.prems(3) by simp
  next
    case False
    then have "k \<in> set ks" using Cons.prems(2) by simp
    then have "filter (\<lambda>r. clave r = k) (map h ks) = [h k]"
      using Cons.IH Cons.prems(1) c by simp
    moreover have "clave (h a) = a" using Cons.prems(3) by simp
    ultimately show ?thesis using False by simp
  qed
qed

text \<open>
  A merge that succeeds leaves one row for each key, in key order; merging that table
  again finds one row in every group, so no group mixes, and returns the table.
\<close>

lemma groupby_agg_idem:
  assumes "groupby_agg base = Inr agg"
  shows "groupby_agg agg = Inr agg"
proof -
  let ?ks = "sort (remdups (map clave base))"
  let ?F = "\<lambda>k. agregar k (filter (\<lambda>r. clave r = k) base)"
  let ?h = "\<lambda>k. projr (?F k)"
  have m: "map ?F ?ks = map Inr agg"
    using assms unfolding groupby_agg_def by (rule todas_Inr)
  have F: "?F k = Inr (?h k)" if "k \<in> set ?ks" for k
  proof -
    have "?F k \<in> set (map Inr agg)" using that m by (metis (no_types, lifting) imageI set_map)
    then obtain r where "?F k = Inr r" by auto
    then show ?thesis by simp
  qed
  have agg: "agg = map ?h ?ks"
  proof -
    have "map projr (map ?F ?ks) =
          map projr (map (Inr :: stock_row \<Rightarrow> py_error + stock_row) agg)"
      by (simp only: m)
    then show ?thesis by (simp add: comp_def)
  qed
  have c: "clave (?h k) = k" if "k \<in> set ?ks" for k
    using F [OF that] by (rule clave_agregar)
  have d: "distinct ?ks" by simp
  have mc: "map (\<lambda>k. clave (?h k)) ?ks = map (\<lambda>k. k) ?ks"
    by (rule map_cong [OF refl]) (rule c)
  have "map clave agg = map (\<lambda>k. clave (?h k)) ?ks"
    by (subst agg) (simp only: map_map comp_def)
  then have "map clave agg = ?ks"
    by (simp only: mc list.map_ident)
  then have ks: "sort (remdups (map clave agg)) = ?ks"
    by (simp add: distinct_remdups_id sorted_sort_id)
  have "map (\<lambda>k. agregar k (filter (\<lambda>r. clave r = k) agg)) ?ks = map (\<lambda>k. Inr (?h k)) ?ks"
  proof (rule map_cong [OF refl])
    fix k assume k: "k \<in> set ?ks"
    have "filter (\<lambda>r. clave r = k) (map ?h ?ks) = [?h k]"
      using d k c by (rule filter_clave_unico)
    then have "agregar k (filter (\<lambda>r. clave r = k) agg) = agregar k [?h k]"
      by (simp only: agg [symmetric])
    also have "\<dots> = agregar (clave (?h k)) [?h k]" by (simp only: c [OF k])
    also have "\<dots> = Inr (?h k)" by (rule agregar_singleton)
    finally show "agregar k (filter (\<lambda>r. clave r = k) agg) = Inr (?h k)" .
  qed
  also have "\<dots> = map Inr agg" unfolding agg by (simp add: comp_def)
  finally have "groupby_agg agg = todas (map Inr agg)"
    unfolding groupby_agg_def [of agg] ks by simp
  then show ?thesis by (simp only: todas_map_Inr)
qed

lemma strip_clave_normalizada:
  assumes "k \<in> set (map clave (map normalizar_stock xs))"
  shows "strip (fst k) = fst k \<and> strip (snd k) = snd k"
proof -
  have "k \<in> (\<lambda>r. clave (normalizar_stock r)) ` set xs" using assms by (simp add: image_image)
  then obtain r where "k = clave (normalizar_stock r)" by (rule imageE)
  then show ?thesis by (simp add: clave_def normalizar_stock_def strip_idem)
qed

lemma groupby_agg_normalizado:
  assumes "groupby_agg (map normalizar_stock xs) = Inr agg"
  shows "map normalizar_stock agg = agg"
proof -
  let ?base = "map normalizar_stock xs"
  let ?ks = "sort (remdups (map clave ?base))"
  let ?F = "\<lambda>k. agregar k (filter (\<lambda>r. clave r = k) ?base)"
  have m: "map ?F ?ks = map Inr agg"
    using assms unfolding groupby_agg_def by (rule todas_Inr)
  have "normalizar_stock r = r" if "r \<in> set agg" for r
  proof -
    have "Inr r \<in> set (map ?F ?ks)" using that by (simp only: m) simp
    then have "Inr r \<in> ?F ` set ?ks" by (simp only: set_map)
    then obtain k where k': "Inr r = ?F k" "k \<in> set ?ks" by (rule imageE)
    have k: "k \<in> set ?ks" "?F k = Inr r" using k' by simp_all
    have "k \<in> set (map clave ?base)" using k(1) by simp
    then have s: "strip (fst k) = fst k \<and> strip (snd k) = snd k"
      by (rule strip_clave_normalizada)
    have "clave r = k" using k(2) by (rule clave_agregar)
    then show ?thesis using s by (auto simp: normalizar_stock_def clave_def)
  qed
  then show ?thesis by (simp add: map_idI)
qed

lemma fusionar_duplicados_fallo:
  assumes "groupby_agg (read_df_stock_mp s) = Inl e"
  shows "fusionar_duplicados s = (Fallo, avisar E_type_error s)"
  using assms by (simp add: fusionar_duplicados_def)

lemma fusionar_duplicados_exito:
  assumes "groupby_agg (read_df_stock_mp s) = Inr agg"
  shows "fusionar_duplicados s = (Exito, avisar S_duplicados_fusionados (s\<lparr>stock_mp := agg\<rparr>))"
  using assms by (simp add: fusionar_duplicados_def)

text \<open>
  C7. Merging duplicates is idempotent: whatever the stored stock table, merging twice in
  a row stores the same table as merging once, and the second merge ends as the first one
  did. A merge that raises stores nothing, so the second one meets the same table and
  raises again; a merge that succeeds stores a table that the second one stores again.
\<close>

theorem fusionar_duplicados_idempotente:
  "stock_mp (snd (fusionar_duplicados (snd (fusionar_duplicados s)))) =
     stock_mp (snd (fusionar_duplicados s))
   \<and> fst (fusionar_duplicados (snd (fusionar_duplicados s))) = fst (fusionar_duplicados s)"
proof (cases "groupby_agg (read_df_stock_mp s)")
  case (Inl e)
  have 1: "fusionar_duplicados s = (Fallo, avisar E_type_error s)"
    using Inl by (rule fusionar_duplicados_fallo)
  have "read_df_stock_mp (avisar E_type_error s) = read_df_stock_mp s"
    by (simp add: read_df_stock_mp_def avisar_def)
  then have "groupby_agg (read_df_stock_mp (avisar E_type_error s)) = Inl e"
    using Inl by simp
  then have 2: "fusionar_duplicados (avisar E_type_error s) =
                (Fallo, avisar E_type_error (avisar E_type_error s))"
    by (rule fusionar_duplicados_fallo)
  show ?thesis by (simp only: 1 2 snd_conv fst_conv) (simp add: avisar_def)
next
  case (Inr agg)
  let ?s1 = "avisar S_duplicados_fusionados (s\<lparr>stock_mp := agg\<rparr>)"
  have 1: "fusionar_duplicados s = (Exito, ?s1)"
    using Inr by (rule fusionar_duplicados_exito)
  have n: "map normalizar_stock agg = agg"
    using Inr unfolding read_df_stock_mp_def by (rule groupby_agg_normalizado)
  have "read_df_stock_mp ?s1 = agg"
    using n by (simp add: read_df_stock_mp_def avisar_def)
  moreover have "groupby_agg agg = Inr agg" using Inr by (rule groupby_agg_idem)
  ultimately have "groupby_agg (read_df_stock_mp ?s1) = Inr agg" by simp
  then have 2: "fusionar_duplicados ?s1 =
                (Exito, avisar S_duplicados_fusionados (?s1\<lparr>stock_mp := agg\<rparr>))"
    by (rule fusionar_duplicados_exito)
  show ?thesis by (simp only: 1 2 snd_conv fst_conv) (simp add: avisar_def)
qed

text \<open>
  Two merges on the table of two Mango rows and one Chapita row. When both Mango rows have
  a date the merge stores one Mango row with the sum, the greatest minimum and the later
  date. When only one of them has a date the merge raises and the table stays as it was.
\<close>

lemma fusionar_duplicados_con_fechas:
  "fusionar_duplicados
     (estado_vacio\<lparr>stock_mp := [(fila_mango 3)\<lparr>st_ultima_entrada := Some ''2024-05-01 08:00:00''\<rparr>,
                                 fila_chapita 2,
                                 (fila_mango 4)\<lparr>st_ultima_entrada := Some ahora,
                                                st_proveedor_mas_frecuente := ''ACME''\<rparr>]\<rparr>) =
     (Exito,
      estado_vacio\<lparr>stock_mp := [fila_chapita 2,
                                (fila_mango 7)\<lparr>st_ultima_entrada := Some ahora,
                                               st_proveedor_mas_frecuente := ''ACME''\<rparr>],
                   avisos := [S_duplicados_fusionados]\<rparr>)"
  by code_simp

lemma fusionar_duplicados_fechas_mixtas:
  "fusionar_duplicados
     (estado_vacio\<lparr>stock_mp := [fila_mango 3, fila_chapita 2,
                                 (fila_mango 4)\<lparr>st_ultima_entrada := Some ahora\<rparr>]\<rparr>) =
     (Fallo,
      estado_vacio\<lparr>stock_mp := [fila_mango 3, fila_chapita 2,
                                 (fila_mango 4)\<lparr>st_ultima_entrada := Some ahora\<rparr>],
                   avisos := [E_type_error]\<rparr>)"
  by code_simp

section \<open>Properties of production\<close>

text \<open>
  C1. A production whose validation finds a shortfall should store nothing. In scenario 2
  (five simple brushes of size 15 with 20 Mango and 3 Chapita in stock) the submit branch
  of \<open>page_produccion\<close> reports the shortfall of Chapita (3 in stock, 5 required) and
  leaves the stock, the movement log and the finished goods as they were, but the
  production row is already stored: the handler appends it before it validates.
\<close>

theorem registrar_produccion_sin_stock:
  "registrar_produccion ''pincel normal'' ''15 - virola 1'' 5 True [] [] ''operario'' ahora
     (escenario 20 3) =
     (Fallo,
      (escenario 20 3)
        \<lparr>produccion := [\<lparr>pr_fecha = ahora, pr_tipo_producto = ''pincel normal'',
                          pr_cantidad = 5, pr_usuario = ''operario'', pr_nota = [],
                          pr_variante_producto = Some ''15 - virola 1''\<rparr>],
         avisos := [E_falta_stock [Insuficiente ''Chapita'' ''15'' 3 5]]\<rparr>)"
  by code_simp

text \<open>
  The handler of an order validates first: with a shortfall it stores nothing.
\<close>

lemma generar_produccion_falta_mp:
  assumes "filter (\<lambda>r. pd_id r = pid) (pedidos s) = rb # resto"
    and "qty = (if modo_prod = Completo then pd_cantidad rb else qty_prod)"
    and "0 < qty"
    and "validar (read_df_stock_mp s)
           (compute_mp_needs (strip (pd_tipo_producto rb)) (strip (pd_variante_producto rb)) qty)
         \<noteq> []"
  shows "generar_produccion pid modo_prod qty_prod usuario now s =
           (Fallo,
            avisar (W_falta_mp
                      (validar (read_df_stock_mp s)
                         (compute_mp_needs (strip (pd_tipo_producto rb))
                            (strip (pd_variante_producto rb)) qty))) s)"
  using assms by (simp add: generar_produccion_def Let_def)

section \<open>Properties of orders\<close>

lemma read_df_stock_mp_pedidos: "read_df_stock_mp (s\<lparr>pedidos := ps\<rparr>) = read_df_stock_mp s"
  by (simp add: read_df_stock_mp_def)

lemma read_df_movimientos_pedidos:
  "read_df_movimientos (s\<lparr>pedidos := ps\<rparr>) = read_df_movimientos s"
  by (simp add: read_df_movimientos_def)

lemma fila_actualizada_pedidos:
  "fila_actualizada tipo variante n proveedor es_entrada now (s\<lparr>pedidos := ps\<rparr>) fila =
   fila_actualizada tipo variante n proveedor es_entrada now s fila"
  by (simp add: fila_actualizada_def Let_def read_df_movimientos_pedidos)

lemma actualizar_stock_pedidos:
  "actualizar_stock tipo variante delta proveedor es_entrada now (s\<lparr>pedidos := ps\<rparr>) =
     (fst (actualizar_stock tipo variante delta proveedor es_entrada now s),
      (snd (actualizar_stock tipo variante delta proveedor es_entrada now s))\<lparr>pedidos := ps\<rparr>)"
  by (simp add: actualizar_stock_def Let_def avisar_def read_df_stock_mp_pedidos
      fila_actualizada_pedidos)

lemma add_movimiento_pedidos:
  "add_movimiento f tm t v c p d ob u (s\<lparr>pedidos := ps\<rparr>) =
     (add_movimiento f tm t v c p d ob u s)\<lparr>pedidos := ps\<rparr>"
  by (simp add: add_movimiento_def Let_def read_df_movimientos_pedidos)

lemma descontar_pedido_pedidos:
  "descontar_pedido pid usuario now needs (s\<lparr>pedidos := ps\<rparr>) =
     (fst (descontar_pedido pid usuario now needs s),
      (snd (descontar_pedido pid usuario now needs s))\<lparr>pedidos := ps\<rparr>)"
proof (induction needs arbitrary: s)
  case Nil
  then show ?case by simp
next
  case (Cons a needs)
  obtain t v c where a: "a = (t, v, c)" by (cases a) auto
  show ?case
    by (simp add: a actualizar_stock_pedidos add_movimiento_pedidos Cons.IH avisar_def
        split: prod.splits)
qed

lemma filter_pd_id_estado:
  "filter (\<lambda>r. pd_id r = pid) (map (\<lambda>r. r\<lparr>pd_estado := f r\<rparr>) ps) =
   map (\<lambda>r. r\<lparr>pd_estado := f r\<rparr>) (filter (\<lambda>r. pd_id r = pid) ps)"
  by (induction ps) auto

lemma fst_case_resultado:
  "fst (case x of (Fallo, s2) \<Rightarrow> (Fallo, s2) | (Exito, s2) \<Rightarrow> (Exito, g s2)) = fst x"
  by (cases x; cases "fst x") auto

lemma generar_produccion_fst:
  "fst (generar_produccion pid modo_prod qty_prod usuario now s) =
     (case filter (\<lambda>r. pd_id r = pid) (pedidos s) of
        [] \<Rightarrow> Fallo
      | rb # _ \<Rightarrow>
          (let tp = strip (pd_tipo_producto rb);
               vp = strip (pd_variante_producto rb);
               qty = (if modo_prod = Completo then pd_cantidad rb else qty_prod)
           in if qty \<le> 0 then Fallo
              else if validar (read_df_stock_mp s) (compute_mp_needs tp vp qty) \<noteq> [] then Fallo
              else fst (descontar_pedido pid usuario now (compute_mp_needs tp vp qty)
                          (s\<lparr>produccion := produccion s @
                               [\<lparr>pr_fecha = now, pr_tipo_producto = tp, pr_cantidad = qty,
                                 pr_usuario = usuario,
                                 pr_nota = ''Generado desde pedido '' @ str_int pid,
                                 pr_variante_producto = Some vp\<rparr>]\<rparr>))))"
  unfolding generar_produccion_def Let_def
  by (simp add: fst_case_resultado split: list.splits)

lemma generar_produccion_sin_condicion:
  "fst (generar_produccion pid modo_prod qty_prod usuario now
          (s\<lparr>pedidos := map (\<lambda>r. r\<lparr>pd_estado := f r\<rparr>) (pedidos s)\<rparr>)) =
   fst (generar_produccion pid modo_prod qty_prod usuario now s)"
proof -
  let ?ps = "map (\<lambda>r. r\<lparr>pd_estado := f r\<rparr>) (pedidos s)"
  have sw: "(s\<lparr>pedidos := ?ps\<rparr>)\<lparr>produccion := x\<rparr> = (s\<lparr>produccion := x\<rparr>)\<lparr>pedidos := ?ps\<rparr>" for x
    by simp
  have d: "fst (descontar_pedido pid usuario now needs ((s\<lparr>pedidos := ?ps\<rparr>)\<lparr>produccion := x\<rparr>)) =
           fst (descontar_pedido pid usuario now needs (s\<lparr>produccion := x\<rparr>))" for needs x
    by (simp only: sw descontar_pedido_pedidos fst_conv)
  show ?thesis
  proof (cases "filter (\<lambda>r. pd_id r = pid) (pedidos s)")
    case Nil
    then show ?thesis by (simp add: generar_produccion_fst filter_pd_id_estado)
  next
    case (Cons rb rest)
    then show ?thesis
      unfolding generar_produccion_fst
      by (simp add: filter_pd_id_estado Let_def d read_df_stock_mp_pedidos
          del: descontar_pedido.simps)
  qed
qed

lemma read_df_stock_mp_produccion:
  "read_df_stock_mp (s\<lparr>produccion := x\<rparr>) = read_df_stock_mp s"
  by (simp add: read_df_stock_mp_def)

lemma read_df_movimientos_produccion:
  "read_df_movimientos (s\<lparr>produccion := x\<rparr>) = read_df_movimientos s"
  by (simp add: read_df_movimientos_def)

lemma fila_actualizada_produccion:
  "fila_actualizada tipo variante n proveedor es_entrada now (s\<lparr>produccion := x\<rparr>) fila =
   fila_actualizada tipo variante n proveedor es_entrada now s fila"
  by (simp add: fila_actualizada_def Let_def read_df_movimientos_produccion)

lemma actualizar_stock_produccion:
  "actualizar_stock tipo variante delta proveedor es_entrada now (s\<lparr>produccion := x\<rparr>) =
     (fst (actualizar_stock tipo variante delta proveedor es_entrada now s),
      (snd (actualizar_stock tipo variante delta proveedor es_entrada now s))\<lparr>produccion := x\<rparr>)"
  by (simp add: actualizar_stock_def Let_def avisar_def read_df_stock_mp_produccion
      fila_actualizada_produccion)

lemma add_movimiento_produccion:
  "add_movimiento f tm t v c p d ob u (s\<lparr>produccion := x\<rparr>) =
     (add_movimiento f tm t v c p d ob u s)\<lparr>produccion := x\<rparr>"
  by (simp add: add_movimiento_def Let_def read_df_movimientos_produccion)

lemma descontar_pedido_produccion:
  "descontar_pedido pid usuario now needs (s\<lparr>produccion := x\<rparr>) =
     (fst (descontar_pedido pid usuario now needs s),
      (snd (descontar_pedido pid usuario now needs s))\<lparr>produccion := x\<rparr>)"
proof (induction needs arbitrary: s)
  case Nil
  then show ?case by simp
next
  case (Cons a needs)
  obtain t v c where a: "a = (t, v, c)" by (cases a) auto
  show ?case
    by (simp add: a actualizar_stock_produccion add_movimiento_produccion Cons.IH avisar_def
        split: prod.splits)
qed

lemma generar_produccion_sin_tope:
  "fst (generar_produccion pid modo_prod qty_prod usuario now (s\<lparr>produccion := x\<rparr>)) =
   fst (generar_produccion pid modo_prod qty_prod usuario now s)"
proof -
  have d: "fst (descontar_pedido pid usuario now needs (s\<lparr>produccion := y\<rparr>)) =
           fst (descontar_pedido pid usuario now needs s)" for needs y
    by (simp only: descontar_pedido_produccion fst_conv)
  have "fst (descontar_pedido pid usuario now needs ((s\<lparr>produccion := x\<rparr>)\<lparr>produccion := y\<rparr>)) =
        fst (descontar_pedido pid usuario now needs (s\<lparr>produccion := z\<rparr>))" for needs y z
    by (simp add: d del: descontar_pedido.simps)
  then show ?thesis
    unfolding generar_produccion_fst
    by (simp add: Let_def read_df_stock_mp_produccion del: descontar_pedido.simps
        split: list.splits)
qed

lemma generar_produccion_exito:
  "generar_produccion pid modo_prod qty_prod usuario now s = (Exito, s') \<Longrightarrow>
     filter (\<lambda>r. pd_id r = pid) (pedidos s) \<noteq> []
   \<and> pedidos s' =
       map (\<lambda>r. if pd_id r = pid then r\<lparr>pd_estado := ''en_produccion''\<rparr> else r) (pedidos s)"
  by (auto simp: generar_produccion_def Let_def avisar_def
      split: list.splits if_splits prod.splits resultado.splits)

text \<open>
  C10. A successful \<open>Generar produccion\<close> sets the state of the order to
  \<open>en_produccion\<close>, whatever the state was. Whether the handler succeeds does not depend
  on the states recorded in the order table, nor on the production already recorded: no
  state is excluded and no quantity produced before caps the next one.
\<close>

theorem generar_produccion_en_produccion:
  "(generar_produccion pid modo_prod qty_prod usuario now s = (Exito, s') \<longrightarrow>
      filter (\<lambda>r. pd_id r = pid) (pedidos s) \<noteq> []
    \<and> pedidos s' =
        map (\<lambda>r. if pd_id r = pid then r\<lparr>pd_estado := ''en_produccion''\<rparr> else r) (pedidos s))
   \<and> fst (generar_produccion pid modo_prod qty_prod usuario now
            (s\<lparr>pedidos := map (\<lambda>r. r\<lparr>pd_estado := f r\<rparr>) (pedidos s)\<rparr>)) =
     fst (generar_produccion pid modo_prod qty_prod usuario now s)
   \<and> fst (generar_produccion pid modo_prod qty_prod usuario now (s\<lparr>produccion := x\<rparr>)) =
     fst (generar_produccion pid modo_prod qty_prod usuario now s)"
proof (intro conjI impI)
  assume e: "generar_produccion pid modo_prod qty_prod usuario now s = (Exito, s')"
  show "filter (\<lambda>r. pd_id r = pid) (pedidos s) \<noteq> []"
    using generar_produccion_exito [OF e] by (rule conjunct1)
  show "pedidos s' =
        map (\<lambda>r. if pd_id r = pid then r\<lparr>pd_estado := ''en_produccion''\<rparr> else r) (pedidos s)"
    using generar_produccion_exito [OF e] by (rule conjunct2)
next
  show "fst (generar_produccion pid modo_prod qty_prod usuario now
            (s\<lparr>pedidos := map (\<lambda>r. r\<lparr>pd_estado := f r\<rparr>) (pedidos s)\<rparr>)) =
     fst (generar_produccion pid modo_prod qty_prod usuario now s)"
    by (rule generar_produccion_sin_condicion)
next
  show "fst (generar_produccion pid modo_prod qty_prod usuario now (s\<lparr>produccion := x\<rparr>)) =
     fst (generar_produccion pid modo_prod qty_prod usuario now s)"
    by (rule generar_produccion_sin_tope)
qed

theorem generar_produccion_en_produccion_witness:
  "map pd_estado (pedidos (estado_con_pedido ''completado'')) = [''completado'']
   \<and> fst (generar_produccion 1 Parcial 12 ''operario'' ahora (estado_con_pedido ''completado'')) = Exito
   \<and> map pd_estado
       (pedidos (snd (generar_produccion 1 Parcial 12 ''operario'' ahora
                        (estado_con_pedido ''completado'')))) = [''en_produccion'']
   \<and> fst (generar_produccion 1 Completo 0 ''operario'' ahora (estado_con_pedido ''cancelado'')) = Exito
   \<and> map pd_estado
       (pedidos (snd (generar_produccion 1 Completo 0 ''operario'' ahora
                        (estado_con_pedido ''cancelado'')))) = [''en_produccion'']"
proof -
  let ?s = "estado_con_pedido ''completado''"
  let ?r = "generar_produccion 1 Parcial 12 ''operario'' ahora ?s"
  let ?t = "estado_con_pedido ''cancelado''"
  let ?q = "generar_produccion 1 Completo 0 ''operario'' ahora ?t"
  have h: "fst ?r = Exito" by code_simp
  have e: "?r = (Exito, snd ?r)" using h by (metis prod.collapse)
  have k: "fst ?q = Exito" by code_simp
  have d: "?q = (Exito, snd ?q)" using k by (metis prod.collapse)
  have p: "pedidos (estado_con_pedido x) = [pedido_1 x]" for x
    by (simp add: estado_con_pedido_def)
  have "pedidos (snd ?r) =
        map (\<lambda>r. if pd_id r = 1 then r\<lparr>pd_estado := ''en_produccion''\<rparr> else r) (pedidos ?s)"
    using generar_produccion_en_produccion
            [where pid = 1 and modo_prod = Parcial and qty_prod = 12 and usuario = "''operario''"
               and now = ahora and s = ?s and s' = "snd ?r"] e
    by blast
  moreover have "pedidos (snd ?q) =
        map (\<lambda>r. if pd_id r = 1 then r\<lparr>pd_estado := ''en_produccion''\<rparr> else r) (pedidos ?t)"
    using generar_produccion_en_produccion
            [where pid = 1 and modo_prod = Completo and qty_prod = 0 and usuario = "''operario''"
               and now = ahora and s = ?t and s' = "snd ?q"] d
    by blast
  ultimately show ?thesis using h k by (simp add: p pedido_1_def)
qed

text \<open>
  C3, as the code has it. A successful dispatch sets the state of the order by the mode
  that was chosen: \<open>completado\<close> in full mode, where the quantity dispatched is the
  quantity requested, and \<open>confirmado\<close> in partial mode, whatever the quantity.
\<close>

theorem despachar_estado_por_modo:
  "despachar pid modo_row qty_row usuario now s = (Exito, s') \<Longrightarrow>
     pedidos s' =
       map (\<lambda>r. if pd_id r = pid
                 then r\<lparr>pd_estado := (if modo_row = Completo then ''completado''
                                        else ''confirmado'')\<rparr>
                 else r)
         (pedidos s)"
  by (auto simp: despachar_def Let_def avisar_def
      split: list.splits if_splits prod.splits resultado.splits)

theorem despachar_estado_por_modo_witness:
  "fst (despachar 1 Completo 0 ''operario'' ahora (estado_despacho 10)) = Exito
   \<and> map pd_estado
       (pedidos (snd (despachar 1 Completo 0 ''operario'' ahora (estado_despacho 10)))) =
       [''completado'']"
proof -
  let ?s = "estado_despacho 10"
  let ?r = "despachar 1 Completo 0 ''operario'' ahora ?s"
  have h: "fst ?r = Exito" by code_simp
  have e: "?r = (Exito, snd ?r)" using h by (metis prod.collapse)
  have p: "pedidos ?s = [pedido_1 ''pendiente'']"
    by (simp add: estado_despacho_def)
  show ?thesis
    using despachar_estado_por_modo [OF e] h by (simp add: p pedido_1_def)
qed

text \<open>
  C3 as stated fails in partial mode. For the order of ten: a partial dispatch of all ten
  succeeds and leaves the order \<open>confirmado\<close>; so do two partial dispatches of four and
  six, whose total is the quantity requested.
\<close>

theorem despachar_parcial_counterexample:
  "map pd_cantidad (pedidos (estado_despacho 10)) = [10]
   \<and> fst (despachar 1 Parcial 10 ''operario'' ahora (estado_despacho 10)) = Exito
   \<and> map pd_estado
       (pedidos (snd (despachar 1 Parcial 10 ''operario'' ahora (estado_despacho 10)))) =
       [''confirmado'']
   \<and> map pd_estado
       (pedidos (snd (despachar 1 Parcial 10 ''operario'' ahora (estado_despacho 10)))) \<noteq>
       [''completado'']
   \<and> fst (despachar 1 Parcial 6 ''operario'' ahora
            (snd (despachar 1 Parcial 4 ''operario'' ahora (estado_despacho 10)))) = Exito
   \<and> map dp_cantidad
       (despachos (snd (despachar 1 Parcial 6 ''operario'' ahora
                          (snd (despachar 1 Parcial 4 ''operario'' ahora (estado_despacho 10)))))) =
       [4, 6]
   \<and> map pd_estado
       (pedidos (snd (despachar 1 Parcial 6 ''operario'' ahora
                        (snd (despachar 1 Parcial 4 ''operario'' ahora (estado_despacho 10)))))) =
       [''confirmado'']
   \<and> map pd_estado
       (pedidos (snd (despachar 1 Parcial 6 ''operario'' ahora
                        (snd (despachar 1 Parcial 4 ''operario'' ahora (estado_despacho 10)))))) \<noteq>
       [''completado'']"
  by code_simp

end
